theory Spec2Isabelle
  imports Complex_Main "HOL-Library.Log_Nat"
begin

section \<open>JavaScript values\<close>

text \<open>
  The hook \<open>useTable\<close> (packages/core/src/hooks/useTable/index.ts) stores cursor tokens
  with the TypeScript type \<open>unknown\<close>: a token may be any JavaScript value. The values
  the hook can tell apart are modelled by \<open>jsval\<close>. Numbers are integers here (page
  numbers, totals and numeric tokens); \<open>NaN\<close>, the infinities and fractions are left
  out.
\<close>

datatype jsval =
    JUndefined
  | JNull
  | JBool bool
  | JNum int
  | JStr string
  | JArr "jsval list"
  | JObj "(string \<times> jsval) list"

text \<open>
  JavaScript's \<open>ToBoolean\<close>, which \<open>if (v)\<close>, \<open>!!v\<close>, \<open>Boolean(v)\<close> and \<open>a || b\<close>
  apply to a value: \<open>undefined\<close>, \<open>null\<close>, \<open>false\<close>, \<open>0\<close> and \<open>""\<close> are falsy,
  every array and object is truthy.
\<close>

fun truthy :: "jsval \<Rightarrow> bool" where
  "truthy JUndefined = False"
| "truthy JNull = False"
| "truthy (JBool b) = b"
| "truthy (JNum n) = (n \<noteq> 0)"
| "truthy (JStr s) = (s \<noteq> [])"
| "truthy (JArr _) = True"
| "truthy (JObj _) = True"

section \<open>JavaScript numbers\<close>

text \<open>
  A JavaScript number is an IEEE-754 double, and \<open>+\<close>, \<open>-\<close> and \<open>/\<close> round the exact
  result to the nearest double, ties to the even significand. The page numbers, page
  sizes and totals of the hook are integers: an \<open>int\<close> of the state stands for the
  double of that value. \<open>roundDouble\<close> is the rounding of an exact rational result:
  the significand has 53 bits, the spacing of the doubles around \<open>x\<close> is
  \<open>2 ^ (binade x - 52)\<close>, and below \<open>2 ^ -1022\<close> (the subnormal doubles) the spacing
  stays \<open>2 ^ -1074\<close>. The quotient, sum and difference of two integer doubles never
  exceed the largest double in magnitude, so the overflow to \<open>Infinity\<close> is not modelled.
\<close>

definition roundHalfEven :: "rat \<Rightarrow> int" where
  "roundHalfEven m =
     (let f = \<lfloor>m\<rfloor>; d = m - of_int f
      in if d < 1 / 2 then f else if 1 / 2 < d then f + 1 else if even f then f else f + 1)"

text \<open>The exponent \<open>b\<close> with \<open>2 ^ b \<le> |x| < 2 ^ (b + 1)\<close>, for \<open>x\<close> other than 0.\<close>

definition binade :: "rat \<Rightarrow> int" where
  "binade x =
     (if 1 \<le> \<bar>x\<bar> then bitlen \<lfloor>\<bar>x\<bar>\<rfloor> - 1 else - bitlen (\<lceil>1 / \<bar>x\<bar>\<rceil> - 1))"

definition roundDouble :: "rat \<Rightarrow> rat" where
  "roundDouble x =
     (if x = 0 then 0
      else (let ulp = 2 powi (max (binade x) (- 1022) - 52)
            in of_int (roundHalfEven (x / ulp)) * ulp))"

text \<open>
  The double nearest to an integer is an integer (a double of magnitude \<open>2 ^ 52\<close> or
  more is one, and a smaller integer is a double itself): the floor changes the type
  only, as \<open>roundDoubleInt_exact\<close> shows.
\<close>

definition roundDoubleInt :: "int \<Rightarrow> int" where
  "roundDoubleInt n = \<lfloor>roundDouble (of_int n)\<rfloor>"

section \<open>Data model\<close>

text \<open>
  Modelled from the spec: the types \<open>CrudSort\<close>, \<open>CrudFilter\<close> and \<open>Pagination\<close> of
  contexts/data/types, which the hook imports (lines 29-39) and which are not among the
  sources. Section 3: a sort entry is a field and an order; a filter entry is a field, an
  operator of an open enumeration (a string here), a value of any kind and an optional
  custom key; the pagination mode is offset, cursor or off. The hook itself compares
  the mode with \<open>"off"\<close> and \<open>"cursor"\<close> only.
\<close>

datatype sort_order = Asc | Desc

record CrudSort =
  sfield :: string
  sorder :: sort_order

record CrudFilter =
  field :: string
  operator :: string
  fvalue :: jsval
  fkey :: "string option"

datatype SetFilterBehavior = Merge | Replace

datatype CursorDirection = After | Before

datatype pagination_mode = ModeOffset | ModeCursor | ModeOff

text \<open>
  The props of the hook after the defaulting of lines 213-248: each field is the local
  constant of that name (\<open>pagination?.mode\<close> is \<open>paginationMode\<close>, absent when the
  caller gives none).
\<close>

record useTableProps =
  paginationMode :: "pagination_mode option"
  prefferedCurrentPage :: "int option"
  prefferedPageSize :: "int option"
  preferredInitialFilters :: "CrudFilter list option"
  preferredPermanentFilters :: "CrudFilter list"
  preferredInitialSorters :: "CrudSort list option"
  preferredPermanentSorters :: "CrudSort list"
  prefferedFilterBehavior :: SetFilterBehavior
  syncWithLocation :: bool

definition isPaginationEnabled :: "useTableProps \<Rightarrow> bool" where
  "isPaginationEnabled props \<longleftrightarrow> paginationMode props \<noteq> Some ModeOff"

definition isCursorPaginationEnabled :: "useTableProps \<Rightarrow> bool" where
  "isCursorPaginationEnabled props \<longleftrightarrow> paginationMode props = Some ModeCursor"

text \<open>The \<open>cursorState\<close> of lines 318-330, and the React state of the hook.\<close>

record cursor_state =
  current :: jsval
  direction :: CursorDirection
  "next" :: jsval
  prev :: jsval
  history :: "jsval list"

record table_state =
  sorters :: "CrudSort list"
  filters :: "CrudFilter list"
  currentPage :: int
  pageSize :: int
  cursorState :: cursor_state

text \<open>
  The response of the data layer as the hook reads it: \<open>total\<close> and the optional
  \<open>cursor: {next, prev}\<close>; a token the response does not supply reads \<open>undefined\<close>.
\<close>

record CursorPagination =
  cursor_next :: jsval
  cursor_prev :: jsval

record GetListResponse =
  total :: "int option"
  cursor :: "CursorPagination option"

section \<open>Cursor navigation\<close>

text \<open>
  Lines 499-508: after a fetch in cursor mode, \<open>next\<close> and \<open>prev\<close> are overwritten from
  the response (\<open>response.cursor?.next\<close>); the query's data is \<open>None\<close> while there is
  no response.
\<close>

definition cursorFromResponse :: "useTableProps \<Rightarrow> GetListResponse option \<Rightarrow> table_state \<Rightarrow> table_state" where
  "cursorFromResponse props qdata s =
     (case qdata of
        None \<Rightarrow> s
      | Some response \<Rightarrow>
          if isCursorPaginationEnabled props then
            s\<lparr>cursorState := (cursorState s)\<lparr>
                 next := (case cursor response of None \<Rightarrow> JUndefined | Some c \<Rightarrow> cursor_next c),
                 prev := (case cursor response of None \<Rightarrow> JUndefined | Some c \<Rightarrow> cursor_prev c)\<rparr>\<rparr>
          else s)"

text \<open>Lines 510-525; \<open>prev + 1\<close> is the sum of two doubles.\<close>

definition goToNextPage :: "useTableProps \<Rightarrow> table_state \<Rightarrow> table_state" where
  "goToNextPage props s =
     (if \<not> isCursorPaginationEnabled props
      then s\<lparr>currentPage := roundDoubleInt (currentPage s + 1)\<rparr>
      else if truthy (next (cursorState s)) then
        s\<lparr>cursorState :=
            \<lparr>current = next (cursorState s),
             direction = After,
             next = JUndefined,
             prev = JUndefined,
             history = history (cursorState s) @ [current (cursorState s)]\<rparr>\<rparr>
      else s)"

text \<open>
  Lines 527-568. \<open>newHistory.pop()\<close> runs only when the history is not empty, so
  \<open>last\<close> and \<open>butlast\<close> are read only there; \<open>prev - 1\<close> is the difference of
  two doubles.
\<close>

definition goToPreviousPage :: "useTableProps \<Rightarrow> table_state \<Rightarrow> table_state" where
  "goToPreviousPage props s =
     (if \<not> isCursorPaginationEnabled props
      then s\<lparr>currentPage := max 1 (roundDoubleInt (currentPage s - 1))\<rparr>
      else if truthy (prev (cursorState s)) then
        s\<lparr>cursorState :=
            \<lparr>current = prev (cursorState s),
             direction = Before,
             next = JUndefined,
             prev = JUndefined,
             history = history (cursorState s)\<rparr>\<rparr>
      else if length (history (cursorState s)) > 0 then
        s\<lparr>cursorState :=
            \<lparr>current = last (history (cursorState s)),
             direction = After,
             next = JUndefined,
             prev = JUndefined,
             history = butlast (history (cursorState s))\<rparr>\<rparr>
      else if truthy (current (cursorState s)) then
        s\<lparr>cursorState :=
            \<lparr>current = JUndefined,
             direction = After,
             next = JUndefined,
             prev = JUndefined,
             history = []\<rparr>\<rparr>
      else s)"

text \<open>
  Lines 570-583. \<open>total / pageSize\<close> is the quotient of two doubles, rounded to a
  double, and \<open>Math.ceil\<close> is the exact ceiling of that double;
  \<open>queryResult.result?.total ?? 0\<close> reads an absent total as 0.
\<close>

definition pageCount :: "int option \<Rightarrow> table_state \<Rightarrow> int" where
  "pageCount tot s =
     (if pageSize s \<noteq> 0
      then \<lceil>roundDouble
              (rat_of_int (case tot of None \<Rightarrow> 0 | Some t \<Rightarrow> t) / rat_of_int (pageSize s))\<rceil>
      else 1)"

definition hasNextPage :: "useTableProps \<Rightarrow> int option \<Rightarrow> table_state \<Rightarrow> bool" where
  "hasNextPage props tot s =
     (if isCursorPaginationEnabled props then truthy (next (cursorState s))
      else currentPage s < pageCount tot s)"

definition hasPreviousPage :: "useTableProps \<Rightarrow> table_state \<Rightarrow> bool" where
  "hasPreviousPage props s =
     (if isCursorPaginationEnabled props
      then truthy (prev (cursorState s)) \<or> length (history (cursorState s)) > 0
           \<or> truthy (current (cursorState s))
      else currentPage s > 1)"

section \<open>Filters and sorters\<close>

text \<open>
  \<open>@definitions/table\<close> is imported by the hook (lines 11-18) and is not among the
  sources: its functions are parameters of the model. A call \<open>unionFilters(p, n)\<close> with
  two arguments passes \<open>None\<close> for the previous filters, a call with three passes them.
\<close>

record parsed_table_params =
  parsedCurrentPage :: "int option"
  parsedPageSize :: "int option"
  parsedSorter :: "CrudSort list"
  parsedFilters :: "CrudFilter list"

record table_definitions =
  parseTableParams :: "string \<Rightarrow> parsed_table_params"
  setInitialFilters :: "CrudFilter list \<Rightarrow> CrudFilter list \<Rightarrow> CrudFilter list"
  setInitialSorters :: "CrudSort list \<Rightarrow> CrudSort list \<Rightarrow> CrudSort list"
  unionFilters :: "CrudFilter list \<Rightarrow> CrudFilter list \<Rightarrow> CrudFilter list option \<Rightarrow> CrudFilter list"
  unionSorters :: "CrudSort list \<Rightarrow> CrudSort list \<Rightarrow> CrudSort list"

text \<open>Lines 448-497: the setters behind \<open>setFilters\<close> and \<open>setSorters\<close>.\<close>

definition setFiltersAsMerge :: "table_definitions \<Rightarrow> useTableProps \<Rightarrow> CrudFilter list \<Rightarrow> table_state \<Rightarrow> table_state" where
  "setFiltersAsMerge defs props newFilters s =
     s\<lparr>filters := unionFilters defs (preferredPermanentFilters props) newFilters (Some (filters s))\<rparr>"

definition setFiltersAsReplace :: "table_definitions \<Rightarrow> useTableProps \<Rightarrow> CrudFilter list \<Rightarrow> table_state \<Rightarrow> table_state" where
  "setFiltersAsReplace defs props newFilters s =
     s\<lparr>filters := unionFilters defs (preferredPermanentFilters props) newFilters None\<rparr>"

definition setFiltersWithSetter :: "table_definitions \<Rightarrow> useTableProps \<Rightarrow> (CrudFilter list \<Rightarrow> CrudFilter list) \<Rightarrow> table_state \<Rightarrow> table_state" where
  "setFiltersWithSetter defs props setter s =
     s\<lparr>filters := unionFilters defs (preferredPermanentFilters props) (setter (filters s)) None\<rparr>"

datatype setter_or_filters =
    Setter "CrudFilter list \<Rightarrow> CrudFilter list"
  | Filters "CrudFilter list"

fun setFiltersFn :: "table_definitions \<Rightarrow> useTableProps \<Rightarrow> setter_or_filters \<Rightarrow> SetFilterBehavior option \<Rightarrow> table_state \<Rightarrow> table_state" where
  "setFiltersFn defs props (Setter f) behavior s = setFiltersWithSetter defs props f s"
| "setFiltersFn defs props (Filters fs) behavior s =
     (if (case behavior of None \<Rightarrow> prefferedFilterBehavior props | Some b \<Rightarrow> b) = Replace
      then setFiltersAsReplace defs props fs s
      else setFiltersAsMerge defs props fs s)"

definition setSortWithUnion :: "table_definitions \<Rightarrow> useTableProps \<Rightarrow> CrudSort list \<Rightarrow> table_state \<Rightarrow> table_state" where
  "setSortWithUnion defs props newSorter s =
     s\<lparr>sorters := unionSorters defs (preferredPermanentSorters props) newSorter\<rparr>"

text \<open>A call of the user on the returned \<open>setFilters\<close> or \<open>setSorters\<close>, and a sequence of them.\<close>

datatype user_call =
    SetFilters setter_or_filters "SetFilterBehavior option"
  | SetSorters "CrudSort list"

fun applyCall :: "table_definitions \<Rightarrow> useTableProps \<Rightarrow> user_call \<Rightarrow> table_state \<Rightarrow> table_state" where
  "applyCall defs props (SetFilters a b) s = setFiltersFn defs props a b s"
| "applyCall defs props (SetSorters xs) s = setSortWithUnion defs props xs s"

fun applyCalls :: "table_definitions \<Rightarrow> useTableProps \<Rightarrow> user_call list \<Rightarrow> table_state \<Rightarrow> table_state" where
  "applyCalls defs props [] s = s"
| "applyCalls defs props (c # cs) s = applyCalls defs props cs (applyCall defs props c s)"

subsection \<open>The union of the specification\<close>

text \<open>
  Modelled from the spec: the bodies of \<open>unionFilters\<close> and \<open>unionSorters\<close> of
  \<open>@definitions/table\<close>, which are not among the sources. Section 3: the uniqueness key
  of a filter entry is (field, operator) unless an explicit custom key is present, that of
  a sort entry is its field.
\<close>

definition filterKey :: "CrudFilter \<Rightarrow> string + string \<times> string" where
  "filterKey f = (case fkey f of Some k \<Rightarrow> Inl k | None \<Rightarrow> Inr (field f, operator f))"

text \<open>
  Modelled from the spec: duplicates by key are resolved to the last occurrence
  (section 4.2). An entry stays when no later entry of the list has its key.
\<close>

fun keepLast :: "('a \<Rightarrow> 'k) \<Rightarrow> 'a list \<Rightarrow> 'a list" where
  "keepLast key [] = []"
| "keepLast key (x # xs) =
     (if key x \<in> set (map key xs) then keepLast key xs else x # keepLast key xs)"

text \<open>
  Modelled from the spec: \<open>union(permanent, incoming, [previous])\<close> of section 4.2, the
  missing body of \<open>unionFilters\<close>. Permanent entries come first in their given order,
  then the incoming entries not represented by a permanent entry's key, then (incoming
  overrides previous) the previous entries whose key neither a permanent nor an incoming
  entry has.
\<close>

definition spec_unionFilters :: "CrudFilter list \<Rightarrow> CrudFilter list \<Rightarrow> CrudFilter list option \<Rightarrow> CrudFilter list" where
  "spec_unionFilters permanent incoming previous =
     permanent
     @ keepLast filterKey
         (filter (\<lambda>f. filterKey f \<notin> set (map filterKey permanent)) incoming)
     @ (case previous of
          None \<Rightarrow> []
        | Some old \<Rightarrow>
            keepLast filterKey
              (filter (\<lambda>f. filterKey f \<notin> set (map filterKey permanent)
                          \<and> filterKey f \<notin> set (map filterKey incoming)) old))"

text \<open>
  Modelled from the spec: the missing body of \<open>unionSorters\<close>; sorters have the single
  union behaviour of section 4.2, always against the permanent ones.
\<close>

definition spec_unionSorters :: "CrudSort list \<Rightarrow> CrudSort list \<Rightarrow> CrudSort list" where
  "spec_unionSorters permanent incoming =
     permanent
     @ keepLast sfield (filter (\<lambda>x. sfield x \<notin> set (map sfield permanent)) incoming)"

text \<open>The definitions of \<open>@definitions/table\<close> with the two unions of the specification.\<close>

definition withSpecUnions :: "table_definitions \<Rightarrow> table_definitions" where
  "withSpecUnions defs = defs\<lparr>unionFilters := spec_unionFilters, unionSorters := spec_unionSorters\<rparr>"

section \<open>The location\<close>

text \<open>
  \<open>parsedParams.params\<close> and the \<open>query\<close> handed to \<open>go\<close> are objects keyed by strings.
  A value is a plain JavaScript value or a typed list of sorters or filters; a key that
  is written with the value \<open>undefined\<close> is in the object (\<open>Some (QVal JUndefined)\<close>),
  a key that is not written is not (\<open>None\<close>).
\<close>

datatype qval = QVal jsval | QSorters "CrudSort list" | QFilters "CrudFilter list"

type_synonym params = "string \<rightharpoonup> qval"

text \<open>
  Reads of \<open>parsedParams?.params\<close> at the types \<open>ParsedParams\<close> declares: \<open>currentPage\<close>
  and \<open>pageSize\<close> are numbers, \<open>sorters\<close> and \<open>filters\<close> typed lists, \<open>search\<close> a
  string; \<open>after\<close> and \<open>before\<close> are plain values.
\<close>

definition paramNum :: "params \<Rightarrow> string \<Rightarrow> int option" where
  "paramNum ps k = (case ps k of Some (QVal (JNum n)) \<Rightarrow> Some n | _ \<Rightarrow> None)"

definition paramVal :: "params \<Rightarrow> string \<Rightarrow> jsval" where
  "paramVal ps k = (case ps k of Some (QVal v) \<Rightarrow> v | _ \<Rightarrow> JUndefined)"

definition paramSearch :: "params \<Rightarrow> string option" where
  "paramSearch ps = (case ps ''search'' of Some (QVal (JStr s)) \<Rightarrow> Some s | _ \<Rightarrow> None)"

definition paramSorters :: "params \<Rightarrow> CrudSort list option" where
  "paramSorters ps = (case ps ''sorters'' of Some (QSorters xs) \<Rightarrow> Some xs | _ \<Rightarrow> None)"

definition paramFilters :: "params \<Rightarrow> CrudFilter list option" where
  "paramFilters ps = (case ps ''filters'' of Some (QFilters xs) \<Rightarrow> Some xs | _ \<Rightarrow> None)"

text \<open>\<open>a || d\<close> on an optional number: \<open>undefined\<close> and \<open>0\<close> give way to \<open>d\<close>.\<close>

fun orElse :: "int option \<Rightarrow> int \<Rightarrow> int" where
  "orElse None d = d"
| "orElse (Some n) d = (if n \<noteq> 0 then n else d)"

text \<open>Lines 250-289: the defaults, computed again on every render.\<close>

record table_defaults =
  defaultCurrentPage :: int
  defaultPageSize :: int
  defaultSorter :: "CrudSort list option"
  defaultFilter :: "CrudFilter list option"
  defaultCursor :: jsval
  defaultCursorDirection :: CursorDirection

definition tableDefaults :: "table_definitions \<Rightarrow> useTableProps \<Rightarrow> params \<Rightarrow> table_defaults" where
  "tableDefaults defs props ps =
     (let parsed = parseTableParams defs (case paramSearch ps of None \<Rightarrow> ''?'' | Some s \<Rightarrow> s)
      in if syncWithLocation props then
           \<lparr>defaultCurrentPage =
              orElse (paramNum ps ''currentPage'')
                (orElse (parsedCurrentPage parsed) (orElse (prefferedCurrentPage props) 1)),
            defaultPageSize =
              orElse (paramNum ps ''pageSize'')
                (orElse (parsedPageSize parsed) (orElse (prefferedPageSize props) 10)),
            defaultSorter =
              (case paramSorters ps of
                 Some xs \<Rightarrow> Some xs
               | None \<Rightarrow> if length (parsedSorter parsed) \<noteq> 0 then Some (parsedSorter parsed)
                         else preferredInitialSorters props),
            defaultFilter =
              (case paramFilters ps of
                 Some xs \<Rightarrow> Some xs
               | None \<Rightarrow> if length (parsedFilters parsed) \<noteq> 0 then Some (parsedFilters parsed)
                         else preferredInitialFilters props),
            defaultCursor =
              (if isCursorPaginationEnabled props \<and> truthy (paramVal ps ''after'')
               then paramVal ps ''after''
               else if isCursorPaginationEnabled props \<and> truthy (paramVal ps ''before'')
               then paramVal ps ''before''
               else JUndefined),
            defaultCursorDirection =
              (if isCursorPaginationEnabled props \<and> truthy (paramVal ps ''after'')
               then After
               else if isCursorPaginationEnabled props \<and> truthy (paramVal ps ''before'')
               then Before
               else After)\<rparr>
         else
           \<lparr>defaultCurrentPage = orElse (prefferedCurrentPage props) 1,
            defaultPageSize = orElse (prefferedPageSize props) 10,
            defaultSorter = preferredInitialSorters props,
            defaultFilter = preferredInitialFilters props,
            defaultCursor = JUndefined,
            defaultCursorDirection = After\<rparr>)"

text \<open>Lines 309-330: the state at mount (the initial values of the \<open>useState\<close> calls).\<close>

definition initialState :: "table_definitions \<Rightarrow> useTableProps \<Rightarrow> params \<Rightarrow> table_state" where
  "initialState defs props ps =
     (let d = tableDefaults defs props ps
      in \<lparr>sorters = setInitialSorters defs (preferredPermanentSorters props)
                      (case defaultSorter d of None \<Rightarrow> [] | Some xs \<Rightarrow> xs),
          filters = setInitialFilters defs (preferredPermanentFilters props)
                      (case defaultFilter d of None \<Rightarrow> [] | Some xs \<Rightarrow> xs),
          currentPage = defaultCurrentPage d,
          pageSize = defaultPageSize d,
          cursorState =
            \<lparr>current = defaultCursor d,
             direction = defaultCursorDirection d,
             next = JUndefined,
             prev = JUndefined,
             history = []\<rparr>\<rparr>)"

text \<open>
  Lines 362-373: the effect that runs when \<open>parsedParams?.params?.search\<close> changes, on
  the render that sees the location \<open>ps\<close>.
\<close>

definition resetOnEmptySearch :: "table_definitions \<Rightarrow> useTableProps \<Rightarrow> params \<Rightarrow> table_state \<Rightarrow> table_state" where
  "resetOnEmptySearch defs props ps s =
     (if ps ''search'' = Some (QVal (JStr ''''))
      then (let d = tableDefaults defs props ps
            in s\<lparr>currentPage := defaultCurrentPage d,
                 pageSize := defaultPageSize d,
                 sorters := setInitialSorters defs (preferredPermanentSorters props)
                              (case defaultSorter d of None \<Rightarrow> [] | Some xs \<Rightarrow> xs),
                 filters := setInitialFilters defs (preferredPermanentFilters props)
                              (case defaultFilter d of None \<Rightarrow> [] | Some xs \<Rightarrow> xs)\<rparr>)
      else s)"

text \<open>The argument of a call of \<open>go\<close>.\<close>

datatype go_type = GoPath | GoReplace

record go_config =
  go_type :: go_type
  keepHash :: bool
  keepQuery :: bool
  query :: params

text \<open>Lines 332-338: the rest of the destructuring, every key but the four named.\<close>

definition getCurrentQueryParams :: "params \<Rightarrow> params" where
  "getCurrentQueryParams ps = ps |` (- {''sorters'', ''filters'', ''pageSize'', ''current''})"

record SyncWithLocationParams =
  link_currentPage :: "int option"
  link_pageSize :: "int option"
  link_sorters :: "CrudSort list"
  link_filters :: "CrudFilter list"

definition jnum :: "int option \<Rightarrow> jsval" where
  "jnum n = (case n of None \<Rightarrow> JUndefined | Some i \<Rightarrow> JNum i)"

text \<open>
  Lines 340-360: the object handed to \<open>go\<close>. In an object literal a later key
  overrides an earlier one, as the right operand of \<open>++\<close> does.
\<close>

definition linkGoConfig :: "useTableProps \<Rightarrow> params \<Rightarrow> SyncWithLocationParams \<Rightarrow> go_config" where
  "linkGoConfig props ps p =
     \<lparr>go_type = GoPath,
      keepHash = True,
      keepQuery = True,
      query =
        (if isPaginationEnabled props
         then [''currentPage'' \<mapsto> QVal (jnum (link_currentPage p)),
               ''pageSize'' \<mapsto> QVal (jnum (link_pageSize p))]
         else Map.empty)
        ++ [''sorters'' \<mapsto> QSorters (link_sorters p), ''filters'' \<mapsto> QFilters (link_filters p)]
        ++ getCurrentQueryParams ps\<rparr>"

definition createLinkForSyncWithLocation :: "(go_config \<Rightarrow> string option) \<Rightarrow> useTableProps \<Rightarrow> params \<Rightarrow> SyncWithLocationParams \<Rightarrow> string" where
  "createLinkForSyncWithLocation go props ps p =
     (case go (linkGoConfig props ps p) of None \<Rightarrow> '''' | Some link \<Rightarrow> link)"





section \<open>Concrete inputs\<close>

text \<open>
  examples/table-material-ui-cursor-pagination/src/pages/posts/list.tsx calls the hook
  with \<open>pagination: {mode: "cursor", pageSize: 5}\<close> and \<open>syncWithLocation: true\<close>; every
  other prop takes its default.
\<close>

definition postListProps :: useTableProps where
  "postListProps =
     \<lparr>paginationMode = Some ModeCursor,
      prefferedCurrentPage = None,
      prefferedPageSize = Some 5,
      preferredInitialFilters = None,
      preferredPermanentFilters = [],
      preferredInitialSorters = None,
      preferredPermanentSorters = [],
      prefferedFilterBehavior = Merge,
      syncWithLocation = True\<rparr>"

text \<open>
  The same call with the permanent filter of the scenario of section 8 of the
  specification (\<open>status eq open\<close>) and a permanent sorter.
\<close>

definition openOnlyProps :: useTableProps where
  "openOnlyProps =
     postListProps
       \<lparr>preferredPermanentFilters :=
          [\<lparr>field = ''status'', operator = ''eq'', fvalue = JStr ''open'', fkey = None\<rparr>],
        preferredPermanentSorters := [\<lparr>sfield = ''id'', sorder = Desc\<rparr>]\<rparr>"

text \<open>
  Modelled from the spec: \<open>parseTableParams\<close> of \<open>@definitions/table\<close> on a search
  string that carries no table field, such as \<open>""\<close> and \<open>"?"\<close>. Section 4.1: missing
  numeric fields yield absent, and there are no sorters and no filters to parse.
\<close>

definition parsesNothing :: "string \<Rightarrow> parsed_table_params" where
  "parsesNothing search =
     \<lparr>parsedCurrentPage = None, parsedPageSize = None, parsedSorter = [], parsedFilters = []\<rparr>"

text \<open>
  Modelled from the spec: an instance of \<open>@definitions/table\<close> for a location without
  table fields, to evaluate the hook on concrete inputs. The initial filters and sorters
  are the union of the permanent and the default ones.
\<close>

definition bareDefinitions :: table_definitions where
  "bareDefinitions =
     \<lparr>parseTableParams = parsesNothing,
      setInitialFilters = (\<lambda>permanent initial. spec_unionFilters permanent initial None),
      setInitialSorters = spec_unionSorters,
      unionFilters = spec_unionFilters,
      unionSorters = spec_unionSorters\<rparr>"

section \<open>Cursor navigation: the properties\<close>

lemma postListProps_cursor: "isCursorPaginationEnabled postListProps"
  by (simp add: isCursorPaginationEnabled_def postListProps_def)

text \<open>
  Claim C1, as the specification states it, lets \<open>goToPreviousPage\<close> take the first tier
  whenever \<open>prev\<close> is present. The hook tests \<open>if (cursorState.prev)\<close>: a \<open>prev\<close> token
  that is present and falsy (here the number 0) does not take the first tier. With the
  history \<open>[c1]\<close> the call pops \<open>c1\<close> instead of moving to \<open>prev\<close>.
\<close>

theorem C1_goToPreviousPage_counterexample:
  "prev (cursorState
      \<lparr>sorters = [], filters = [], currentPage = 1, pageSize = 5,
       cursorState = \<lparr>current = JStr ''c2'', direction = After, next = JUndefined,
                      prev = JNum 0, history = [JStr ''c1'']\<rparr>\<rparr>) \<noteq> JUndefined
   \<and> goToPreviousPage postListProps
      \<lparr>sorters = [], filters = [], currentPage = 1, pageSize = 5,
       cursorState = \<lparr>current = JStr ''c2'', direction = After, next = JUndefined,
                      prev = JNum 0, history = [JStr ''c1'']\<rparr>\<rparr>
     = \<lparr>sorters = [], filters = [], currentPage = 1, pageSize = 5,
        cursorState = \<lparr>current = JStr ''c1'', direction = After, next = JUndefined,
                       prev = JUndefined, history = []\<rparr>\<rparr>"
  by (simp add: goToPreviousPage_def postListProps_cursor)

text \<open>
  Claim C1, amended: in cursor mode \<open>goToPreviousPage\<close> follows the three tiers, with
  "present" read as JavaScript truthiness for \<open>prev\<close> and \<open>current\<close>. If \<open>prev\<close> is
  truthy, \<open>current\<close> becomes \<open>prev\<close>, the direction \<open>before\<close>, \<open>next\<close> and \<open>prev\<close> are
  cleared and the history is unchanged. Else, if the history is not empty, its last entry
  is popped into \<open>current\<close>, the direction is \<open>after\<close>, \<open>next\<close> and \<open>prev\<close> are cleared.
  Else, if \<open>current\<close> is truthy, \<open>current\<close> becomes absent, the direction \<open>after\<close>,
  \<open>next\<close> and \<open>prev\<close> are cleared and the history is empty. Else the call changes
  nothing. Sorters, filters, page and page size are never touched.
\<close>

theorem C1_goToPreviousPage_tiers:
  assumes "isCursorPaginationEnabled props"
  shows "(truthy (prev (cursorState s)) \<longrightarrow>
            cursorState (goToPreviousPage props s) =
              \<lparr>current = prev (cursorState s), direction = Before, next = JUndefined,
               prev = JUndefined, history = history (cursorState s)\<rparr>)
       \<and> (\<not> truthy (prev (cursorState s)) \<and> history (cursorState s) \<noteq> [] \<longrightarrow>
            history (cursorState s) =
              history (cursorState (goToPreviousPage props s))
              @ [current (cursorState (goToPreviousPage props s))]
            \<and> direction (cursorState (goToPreviousPage props s)) = After
            \<and> next (cursorState (goToPreviousPage props s)) = JUndefined
            \<and> prev (cursorState (goToPreviousPage props s)) = JUndefined)
       \<and> (\<not> truthy (prev (cursorState s)) \<and> history (cursorState s) = []
            \<and> truthy (current (cursorState s)) \<longrightarrow>
            cursorState (goToPreviousPage props s) =
              \<lparr>current = JUndefined, direction = After, next = JUndefined,
               prev = JUndefined, history = []\<rparr>)
       \<and> (\<not> truthy (prev (cursorState s)) \<and> history (cursorState s) = []
            \<and> \<not> truthy (current (cursorState s)) \<longrightarrow>
            goToPreviousPage props s = s)
       \<and> sorters (goToPreviousPage props s) = sorters s
       \<and> filters (goToPreviousPage props s) = filters s
       \<and> currentPage (goToPreviousPage props s) = currentPage s
       \<and> pageSize (goToPreviousPage props s) = pageSize s"
  using assms by (simp add: goToPreviousPage_def)

text \<open>
  The three tiers at concrete states of the example: an API \<open>prev\<close> token with a history
  of two (tier 1), the history \<open>[c1, c2]\<close> without \<open>prev\<close> (tier 2, \<open>c2\<close> is popped), and
  a current cursor with neither (tier 3).
\<close>

theorem C1_goToPreviousPage_tiers_witness:
  "isCursorPaginationEnabled postListProps
   \<and> cursorState (goToPreviousPage postListProps
        \<lparr>sorters = [], filters = [], currentPage = 1, pageSize = 5,
         cursorState = \<lparr>current = JStr ''c3'', direction = After, next = JUndefined,
                        prev = JStr ''p'', history = [JStr ''c1'', JStr ''c2'']\<rparr>\<rparr>)
     = \<lparr>current = JStr ''p'', direction = Before, next = JUndefined,
        prev = JUndefined, history = [JStr ''c1'', JStr ''c2'']\<rparr>
   \<and> [JStr ''c1'', JStr ''c2'']
     = history (cursorState (goToPreviousPage postListProps
        \<lparr>sorters = [], filters = [], currentPage = 1, pageSize = 5,
         cursorState = \<lparr>current = JStr ''c3'', direction = After, next = JUndefined,
                        prev = JUndefined, history = [JStr ''c1'', JStr ''c2'']\<rparr>\<rparr>))
       @ [current (cursorState (goToPreviousPage postListProps
        \<lparr>sorters = [], filters = [], currentPage = 1, pageSize = 5,
         cursorState = \<lparr>current = JStr ''c3'', direction = After, next = JUndefined,
                        prev = JUndefined, history = [JStr ''c1'', JStr ''c2'']\<rparr>\<rparr>))]
   \<and> cursorState (goToPreviousPage postListProps
        \<lparr>sorters = [], filters = [], currentPage = 1, pageSize = 5,
         cursorState = \<lparr>current = JStr ''c1'', direction = After, next = JUndefined,
                        prev = JUndefined, history = []\<rparr>\<rparr>)
     = \<lparr>current = JUndefined, direction = After, next = JUndefined,
        prev = JUndefined, history = []\<rparr>"
  using postListProps_cursor
    C1_goToPreviousPage_tiers [OF postListProps_cursor, of
        "\<lparr>sorters = [], filters = [], currentPage = 1, pageSize = 5,
         cursorState = \<lparr>current = JStr ''c3'', direction = After, next = JUndefined,
                        prev = JStr ''p'', history = [JStr ''c1'', JStr ''c2'']\<rparr>\<rparr>"]
    C1_goToPreviousPage_tiers [OF postListProps_cursor, of
        "\<lparr>sorters = [], filters = [], currentPage = 1, pageSize = 5,
         cursorState = \<lparr>current = JStr ''c3'', direction = After, next = JUndefined,
                        prev = JUndefined, history = [JStr ''c1'', JStr ''c2'']\<rparr>\<rparr>"]
    C1_goToPreviousPage_tiers [OF postListProps_cursor, of
        "\<lparr>sorters = [], filters = [], currentPage = 1, pageSize = 5,
         cursorState = \<lparr>current = JStr ''c1'', direction = After, next = JUndefined,
                        prev = JUndefined, history = []\<rparr>\<rparr>"]
  by simp

text \<open>
  Claim C2: the hook starts in cursor mode with no location, so \<open>current\<close> is absent. A
  fetch whose response carries \<open>cursor.next = "abc"\<close> and no \<open>prev\<close> gives
  \<open>hasNextPage\<close> and not \<open>hasPreviousPage\<close>. After \<open>goToNextPage\<close> and a fetch returning
  \<open>cursor.next = "def"\<close> and no \<open>prev\<close>, \<open>hasPreviousPage\<close> holds through the history
  (\<open>prev\<close> is absent), and one \<open>goToPreviousPage\<close> returns \<open>current\<close> to absent. This
  holds whatever the functions of \<open>@definitions/table\<close> are.
\<close>

theorem C2_cursor_scenario:
  "(let s0 = initialState defs postListProps Map.empty;
        s1 = cursorFromResponse postListProps
               (Some \<lparr>total = None, cursor = Some \<lparr>cursor_next = JStr ''abc'', cursor_prev = JUndefined\<rparr>\<rparr>) s0;
        s2 = goToNextPage postListProps s1;
        s3 = cursorFromResponse postListProps
               (Some \<lparr>total = None, cursor = Some \<lparr>cursor_next = JStr ''def'', cursor_prev = JUndefined\<rparr>\<rparr>) s2;
        s4 = goToPreviousPage postListProps s3
    in current (cursorState s0) = JUndefined
       \<and> hasNextPage postListProps None s1 \<and> \<not> hasPreviousPage postListProps s1
       \<and> current (cursorState s2) = JStr ''abc''
       \<and> hasPreviousPage postListProps s3
       \<and> prev (cursorState s3) = JUndefined
       \<and> history (cursorState s3) = [JUndefined]
       \<and> current (cursorState s4) = JUndefined
       \<and> history (cursorState s4) = []
       \<and> \<not> hasPreviousPage postListProps s4)"
  by (simp add: Let_def initialState_def tableDefaults_def cursorFromResponse_def
      goToNextPage_def goToPreviousPage_def hasNextPage_def hasPreviousPage_def
      postListProps_cursor paramVal_def)

text \<open>
  Claim C7, as the specification states it, makes availability depend on the presence of
  a token and not on its value, also for 0 and the empty string. The hook tests
  \<open>!!cursorState.next\<close> and \<open>if (cursorState.next)\<close>: a fetch that supplies \<open>next = 0\<close>
  stores the token and \<open>hasNextPage\<close> is false; with \<open>next = ""\<close> \<open>hasNextPage\<close> is false
  and \<open>goToNextPage\<close> changes nothing.
\<close>

theorem C7_falsy_token_counterexample:
  "next (cursorState (cursorFromResponse postListProps
      (Some \<lparr>total = None, cursor = Some \<lparr>cursor_next = JNum 0, cursor_prev = JUndefined\<rparr>\<rparr>)
      \<lparr>sorters = [], filters = [], currentPage = 1, pageSize = 5,
       cursorState = \<lparr>current = JUndefined, direction = After, next = JUndefined,
                      prev = JUndefined, history = []\<rparr>\<rparr>)) = JNum 0
   \<and> \<not> hasNextPage postListProps None (cursorFromResponse postListProps
      (Some \<lparr>total = None, cursor = Some \<lparr>cursor_next = JNum 0, cursor_prev = JUndefined\<rparr>\<rparr>)
      \<lparr>sorters = [], filters = [], currentPage = 1, pageSize = 5,
       cursorState = \<lparr>current = JUndefined, direction = After, next = JUndefined,
                      prev = JUndefined, history = []\<rparr>\<rparr>)
   \<and> \<not> hasNextPage postListProps None
      \<lparr>sorters = [], filters = [], currentPage = 1, pageSize = 5,
       cursorState = \<lparr>current = JUndefined, direction = After, next = JStr '''',
                      prev = JUndefined, history = []\<rparr>\<rparr>
   \<and> goToNextPage postListProps
      \<lparr>sorters = [], filters = [], currentPage = 1, pageSize = 5,
       cursorState = \<lparr>current = JUndefined, direction = After, next = JStr '''',
                      prev = JUndefined, history = []\<rparr>\<rparr>
     = \<lparr>sorters = [], filters = [], currentPage = 1, pageSize = 5,
       cursorState = \<lparr>current = JUndefined, direction = After, next = JStr '''',
                      prev = JUndefined, history = []\<rparr>\<rparr>"
  by (simp add: cursorFromResponse_def hasNextPage_def goToNextPage_def postListProps_cursor)

text \<open>
  Claim C7, amended: in cursor mode availability depends on the JavaScript truthiness of
  the token and on nothing else of its value. \<open>hasNextPage\<close> is true exactly when \<open>next\<close>
  is truthy (any value but \<open>undefined\<close>, \<open>null\<close>, \<open>false\<close>, 0 and the empty string,
  whatever its type); \<open>goToNextPage\<close> navigates exactly then (\<open>current\<close> becomes \<open>next\<close>,
  the old \<open>current\<close> is pushed on the history) and changes nothing otherwise;
  \<open>hasPreviousPage\<close> is true exactly when \<open>prev\<close> is truthy or the history is not empty
  or \<open>current\<close> is truthy. The same holds right after the fetch that supplies the token.
\<close>

theorem C7_availability_by_truthiness:
  assumes "isCursorPaginationEnabled props"
  shows "(hasNextPage props tot s \<longleftrightarrow> truthy (next (cursorState s)))
       \<and> (truthy (next (cursorState s)) \<longrightarrow>
            cursorState (goToNextPage props s) =
              \<lparr>current = next (cursorState s), direction = After, next = JUndefined,
               prev = JUndefined, history = history (cursorState s) @ [current (cursorState s)]\<rparr>)
       \<and> (\<not> truthy (next (cursorState s)) \<longrightarrow> goToNextPage props s = s)
       \<and> (hasPreviousPage props s \<longleftrightarrow>
            truthy (prev (cursorState s)) \<or> history (cursorState s) \<noteq> []
            \<or> truthy (current (cursorState s)))
       \<and> (hasNextPage props tot
            (cursorFromResponse props (Some \<lparr>total = t, cursor = Some \<lparr>cursor_next = v, cursor_prev = w\<rparr>\<rparr>) s)
            \<longleftrightarrow> truthy v)"
  using assms
  by (simp add: hasNextPage_def hasPreviousPage_def goToNextPage_def cursorFromResponse_def)

text \<open>
  A structured token (an object) and a numeric token other than 0 are available like a
  string; the state is the one the example reaches after its first fetch.
\<close>

theorem C7_availability_by_truthiness_witness:
  "isCursorPaginationEnabled postListProps
   \<and> hasNextPage postListProps None
        \<lparr>sorters = [], filters = [], currentPage = 1, pageSize = 5,
         cursorState = \<lparr>current = JUndefined, direction = After,
                        next = JObj [(''id'', JNum 7)], prev = JUndefined, history = []\<rparr>\<rparr>
   \<and> cursorState (goToNextPage postListProps
        \<lparr>sorters = [], filters = [], currentPage = 1, pageSize = 5,
         cursorState = \<lparr>current = JUndefined, direction = After,
                        next = JObj [(''id'', JNum 7)], prev = JUndefined, history = []\<rparr>\<rparr>)
     = \<lparr>current = JObj [(''id'', JNum 7)], direction = After, next = JUndefined,
        prev = JUndefined, history = [JUndefined]\<rparr>
   \<and> hasNextPage postListProps None
        (cursorFromResponse postListProps
           (Some \<lparr>total = None, cursor = Some \<lparr>cursor_next = JNum 42, cursor_prev = JUndefined\<rparr>\<rparr>)
           \<lparr>sorters = [], filters = [], currentPage = 1, pageSize = 5,
            cursorState = \<lparr>current = JUndefined, direction = After,
                           next = JObj [(''id'', JNum 7)], prev = JUndefined, history = []\<rparr>\<rparr>)"
  using postListProps_cursor
    C7_availability_by_truthiness [OF postListProps_cursor, of None
        "\<lparr>sorters = [], filters = [], currentPage = 1, pageSize = 5,
         cursorState = \<lparr>current = JUndefined, direction = After,
                        next = JObj [(''id'', JNum 7)], prev = JUndefined, history = []\<rparr>\<rparr>"
        None "JNum 42" JUndefined]
  by simp

section \<open>JavaScript numbers: the properties\<close>

lemma roundHalfEven_error: "\<bar>of_int (roundHalfEven m) - m\<bar> \<le> 1 / 2"
proof -
  define f where "f = \<lfloor>m\<rfloor>"
  have "of_int f \<le> m" "m < of_int f + 1"
    unfolding f_def by linarith+
  then show ?thesis
    unfolding roundHalfEven_def Let_def f_def [symmetric]
    by (auto simp add: abs_if)
qed

lemma roundHalfEven_of_int: "roundHalfEven (of_int k) = k"
  by (simp add: roundHalfEven_def)

lemma binade_bounds:
  assumes "x \<noteq> 0"
  shows "2 powi binade x \<le> \<bar>x\<bar> \<and> \<bar>x\<bar> < 2 powi (binade x + 1)"
proof (cases "1 \<le> \<bar>x\<bar>")
  case True
  define n where "n = \<lfloor>\<bar>x\<bar>\<rfloor>"
  have n1: "1 \<le> n" unfolding n_def using True by linarith
  then have npos: "0 < n" by simp
  from bitlen_bounds [OF npos]
  have lo: "2 ^ nat (bitlen n - 1) \<le> n" and hi: "n < 2 ^ nat (bitlen n)" by simp_all
  have bl: "1 \<le> bitlen n"
    using npos bitlen_eq_zero_iff [of n] bitlen_nonneg [of n] by linarith
  have b: "binade x = bitlen n - 1"
    using True by (simp add: binade_def n_def)
  have nx: "of_int n \<le> \<bar>x\<bar>" "\<bar>x\<bar> < of_int n + 1"
    unfolding n_def by linarith+
  have "(2::rat) powi (bitlen n - 1) = 2 ^ nat (bitlen n - 1)"
    using bl by (simp add: power_int_nonneg_exp)
  also have "\<dots> = of_int (2 ^ nat (bitlen n - 1))" by simp
  also have "\<dots> \<le> of_int n" using lo by (simp only: of_int_le_iff)
  finally have below: "2 powi binade x \<le> \<bar>x\<bar>" using nx b by simp
  have "n + 1 \<le> 2 ^ nat (bitlen n)" using hi by simp
  then have "(of_int (n + 1) :: rat) \<le> of_int (2 ^ nat (bitlen n))"
    by (simp only: of_int_le_iff)
  also have "\<dots> = 2 powi (bitlen n)"
    using bl by (simp add: power_int_nonneg_exp)
  finally have above: "\<bar>x\<bar> < 2 powi (binade x + 1)" using nx b by simp
  from below above show ?thesis ..
next
  case False
  define y where "y = 1 / \<bar>x\<bar>"
  have xpos: "0 < \<bar>x\<bar>" using assms by simp
  have y1: "1 < y" unfolding y_def using False xpos by (simp add: field_simps)
  define n where "n = \<lceil>y\<rceil> - 1"
  have n1: "1 \<le> n" unfolding n_def using y1 by linarith
  then have npos: "0 < n" by simp
  from bitlen_bounds [OF npos]
  have lo: "2 ^ nat (bitlen n - 1) \<le> n" and hi: "n < 2 ^ nat (bitlen n)" by simp_all
  have bl: "1 \<le> bitlen n"
    using npos bitlen_eq_zero_iff [of n] bitlen_nonneg [of n] by linarith
  have b: "binade x = - bitlen n"
    using False by (simp add: binade_def n_def y_def)
  have ny: "of_int n < y" "y \<le> of_int n + 1"
    unfolding n_def by linarith+
  have "n + 1 \<le> 2 ^ nat (bitlen n)" using hi by simp
  then have "(of_int (n + 1) :: rat) \<le> of_int (2 ^ nat (bitlen n))"
    by (simp only: of_int_le_iff)
  also have "\<dots> = 2 powi (bitlen n)"
    using bl by (simp add: power_int_nonneg_exp)
  finally have yhi: "y \<le> 2 powi (bitlen n)" using ny by simp
  have "(2::rat) powi (bitlen n - 1) = of_int (2 ^ nat (bitlen n - 1))"
    using bl by (simp add: power_int_nonneg_exp)
  also have "\<dots> \<le> of_int n" using lo by (simp only: of_int_le_iff)
  finally have ylo: "2 powi (bitlen n - 1) < y" using ny by simp
  have p1: "(0::rat) < 2 powi (bitlen n)" and p2: "(0::rat) < 2 powi (bitlen n - 1)"
    by (simp_all add: zero_less_power_int)
  have x_eq: "\<bar>x\<bar> = 1 / y" unfolding y_def by simp
  have ypos: "0 < y" using y1 by simp
  have below: "2 powi (- bitlen n) \<le> \<bar>x\<bar>"
    unfolding x_eq power_int_minus_divide using yhi ypos p1 by (simp add: frac_le)
  have "1 / y < 1 / 2 powi (bitlen n - 1)"
    using ylo p2 by (simp add: frac_less2)
  then have above: "\<bar>x\<bar> < 2 powi (- bitlen n + 1)"
    unfolding x_eq using power_int_minus_divide [of "2::rat" "bitlen n - 1"] by simp
  from below above b show ?thesis by simp
qed

lemma binade_ge:
  assumes "x \<noteq> 0" and "2 powi l \<le> \<bar>x\<bar>"
  shows "l \<le> binade x"
proof (rule ccontr)
  assume "\<not> l \<le> binade x"
  then have "binade x + 1 \<le> l" by simp
  then have "(2::rat) powi (binade x + 1) \<le> 2 powi l"
    by (intro power_int_increasing) simp_all
  with binade_bounds [OF assms(1)] assms(2) show False by linarith
qed

lemma binade_less:
  assumes "x \<noteq> 0" and "\<bar>x\<bar> < 2 powi l"
  shows "binade x < l"
proof (rule ccontr)
  assume "\<not> binade x < l"
  then have "l \<le> binade x" by simp
  then have "(2::rat) powi l \<le> 2 powi binade x"
    by (intro power_int_increasing) simp_all
  with binade_bounds [OF assms(1)] assms(2) show False by linarith
qed

text \<open>Outside the subnormal range the rounding has a relative error of at most \<open>2 ^ -53\<close>.\<close>

lemma roundDouble_error:
  assumes "x \<noteq> 0" and "- 1022 \<le> binade x"
  shows "\<bar>roundDouble x - x\<bar> \<le> \<bar>x\<bar> / 2 ^ 53"
proof -
  define u :: rat where "u = 2 powi (binade x - 52)"
  have upos: "0 < u" unfolding u_def by (simp add: zero_less_power_int)
  have rd: "roundDouble x = of_int (roundHalfEven (x / u)) * u"
    using assms by (simp add: roundDouble_def Let_def u_def max_def)
  have "roundDouble x - x = (of_int (roundHalfEven (x / u)) - x / u) * u"
    using upos by (simp add: rd field_simps)
  then have "\<bar>roundDouble x - x\<bar> = \<bar>of_int (roundHalfEven (x / u)) - x / u\<bar> * u"
    using upos by (simp add: abs_mult)
  also have "\<dots> \<le> (1 / 2) * u"
    using roundHalfEven_error [of "x / u"] upos by (intro mult_right_mono) simp_all
  also have "\<dots> = 2 powi binade x / 2 ^ 53"
    unfolding u_def by (simp add: power_int_diff)
  also have "\<dots> \<le> \<bar>x\<bar> / 2 ^ 53"
    using binade_bounds [OF assms(1)] by (simp add: divide_right_mono)
  finally show ?thesis .
qed

text \<open>An integer of magnitude below \<open>2 ^ 53\<close> is a double.\<close>

lemma roundDouble_of_int:
  assumes "\<bar>k\<bar> < 2 ^ 53"
  shows "roundDouble (of_int k) = of_int k"
proof (cases "k = 0")
  case True
  then show ?thesis by (simp add: roundDouble_def)
next
  case False
  define x :: rat where "x = of_int k"
  have x0: "x \<noteq> 0" using False by (simp add: x_def)
  have "1 \<le> \<bar>k\<bar>" using False by simp
  then have "(1::rat) \<le> of_int \<bar>k\<bar>" by (simp only: of_int_1_le_iff)
  then have x1: "2 powi 0 \<le> \<bar>x\<bar>" by (simp add: x_def)
  have "(of_int \<bar>k\<bar> :: rat) < of_int (2 ^ 53)" using assms by (simp only: of_int_less_iff)
  then have x2: "\<bar>x\<bar> < 2 powi 53" by (simp add: x_def)
  have b0: "0 \<le> binade x" by (rule binade_ge [OF x0 x1])
  have b53: "binade x < 53" by (rule binade_less [OF x0 x2])
  define n where "n = nat (52 - binade x)"
  have e: "binade x - 52 = - int n" using b53 by (simp add: n_def)
  define u :: rat where "u = 2 powi (binade x - 52)"
  have u: "u = 1 / 2 ^ n" unfolding u_def e by (simp add: power_int_minus_divide)
  have rd: "roundDouble x = of_int (roundHalfEven (x / u)) * u"
    using x0 b0 by (simp add: roundDouble_def Let_def u_def max_def)
  have "x / u = of_int (k * 2 ^ n)" by (simp add: u x_def)
  then have "roundHalfEven (x / u) = k * 2 ^ n" by (simp only: roundHalfEven_of_int)
  then have "roundDouble x = of_int k" by (simp add: rd u)
  then show ?thesis by (simp add: x_def)
qed

lemma roundDoubleInt_exact: "of_int (roundDoubleInt n) = roundDouble (of_int n)"
proof (cases "\<bar>n\<bar> < 2 ^ 53")
  case True
  then show ?thesis by (simp add: roundDoubleInt_def roundDouble_of_int)
next
  case False
  define x :: rat where "x = of_int n"
  have "2 ^ 53 \<le> \<bar>n\<bar>" using False by simp
  then have "(of_int (2 ^ 53) :: rat) \<le> of_int \<bar>n\<bar>" by (simp only: of_int_le_iff)
  then have big: "2 powi 53 \<le> \<bar>x\<bar>" by (simp add: x_def)
  then have x0: "x \<noteq> 0" by auto
  have b: "53 \<le> binade x" by (rule binade_ge [OF x0 big])
  define k where "k = nat (binade x - 52)"
  have e: "max (binade x) (- 1022) - 52 = int k" using b by (simp add: k_def max_def)
  have "roundDouble x = of_int (roundHalfEven (x / 2 ^ k)) * 2 ^ k"
    using x0 by (simp add: roundDouble_def Let_def e)
  also have "\<dots> = of_int (roundHalfEven (x / 2 ^ k) * 2 ^ k)" by simp
  finally show ?thesis
    unfolding roundDoubleInt_def x_def [symmetric] by (simp only: floor_of_int)
qed

lemma roundDoubleInt_safe: "\<bar>n\<bar> < 2 ^ 53 \<Longrightarrow> roundDoubleInt n = n"
  by (simp add: roundDoubleInt_def roundDouble_of_int)

text \<open>
  The first integer that is not a double: \<open>2 ^ 53 + 1\<close> lies halfway between two
  doubles and rounds to the even one, so \<open>prev + 1\<close> leaves \<open>2 ^ 53\<close> where it is.
\<close>

lemma roundDoubleInt_beyond_safe: "roundDoubleInt (9007199254740992 + 1) = 9007199254740992"
  by code_simp

text \<open>
  For two integers of magnitude below \<open>2 ^ 53\<close> the rounded quotient has the ceiling of
  the exact quotient: the quotient is an integer, which is a double, or it is at least
  \<open>1 / |p|\<close> away from the next integers while the rounding moves it by less.
\<close>

lemma ceiling_roundDouble_pos:
  fixes t p :: int
  assumes p: "0 < p" "p < 2 ^ 53" and t: "\<bar>t\<bar> < 2 ^ 53"
  shows "\<lceil>roundDouble (of_int t / of_int p)\<rceil> = \<lceil>(of_int t / of_int p :: rat)\<rceil>"
proof (cases "p dvd t")
  case True
  then obtain k where k: "t = p * k" ..
  have "\<bar>k\<bar> \<le> \<bar>p\<bar> * \<bar>k\<bar>" using p by (simp add: mult_le_cancel_right1)
  then have "\<bar>k\<bar> < 2 ^ 53" using t by (simp add: k abs_mult)
  moreover have "(of_int t / of_int p :: rat) = of_int k" using p by (simp add: k)
  ultimately show ?thesis by (simp add: roundDouble_of_int)
next
  case False
  define x :: rat where "x = of_int t / of_int p"
  define c where "c = \<lceil>x\<rceil>"
  define q :: rat where "q = of_int p"
  have qpos: "0 < q" using p by (simp add: q_def)
  have xq: "x * q = of_int t" using qpos by (simp add: x_def q_def)
  have t0: "t \<noteq> 0" using False by auto
  have x0: "x \<noteq> 0" using t0 qpos by (simp add: x_def q_def)
  have notint: "x \<noteq> of_int j" for j
  proof
    assume "x = of_int j"
    then have "(of_int t :: rat) = of_int (j * p)" using xq by (simp add: q_def)
    then have "t = j * p" by (simp only: of_int_eq_iff)
    with False show False by simp
  qed
  have "x \<le> of_int c" "of_int c - 1 < x" unfolding c_def by linarith+
  with notint [of c] notint [of "c - 1"] have cx: "x < of_int c" "of_int (c - 1) < x" by simp_all
  have "(of_int t :: rat) < of_int (c * p)" using cx(1) qpos xq
    by (simp add: q_def field_simps x_def)
  then have "t < c * p" by (simp only: of_int_less_iff)
  then have "t + 1 \<le> c * p" by simp
  then have "(of_int (t + 1) :: rat) \<le> of_int (c * p)" by (simp only: of_int_le_iff)
  then have up: "x + 1 / q \<le> of_int c" using qpos by (simp add: x_def q_def field_simps)
  have "(of_int ((c - 1) * p) :: rat) < of_int t" using cx(2) qpos
    by (simp add: q_def field_simps x_def)
  then have "(c - 1) * p < t" by (simp only: of_int_less_iff)
  then have "(c - 1) * p + 1 \<le> t" by simp
  then have "(of_int ((c - 1) * p + 1) :: rat) \<le> of_int t" by (simp only: of_int_le_iff)
  then have down: "of_int c - 1 \<le> x - 1 / q" using qpos by (simp add: x_def q_def field_simps)
  have absx: "\<bar>x\<bar> = of_int \<bar>t\<bar> / q" using qpos by (simp add: x_def q_def)
  have "1 \<le> \<bar>t\<bar>" using t0 by simp
  then have t1: "(1::rat) \<le> of_int \<bar>t\<bar>" by (simp only: of_int_1_le_iff)
  have t53: "(of_int \<bar>t\<bar> :: rat) < 2 ^ 53"
  proof -
    have "(of_int \<bar>t\<bar> :: rat) < of_int (2 ^ 53)" using t by (simp only: of_int_less_iff)
    then show ?thesis by simp
  qed
  have q53: "q < 2 ^ 53"
  proof -
    have "(of_int p :: rat) < of_int (2 ^ 53)" using p by (simp only: of_int_less_iff)
    then show ?thesis by (simp add: q_def)
  qed
  have "1 / 2 ^ 53 < 1 / q" using q53 qpos by (simp add: frac_less2)
  also have "\<dots> \<le> \<bar>x\<bar>" unfolding absx using t1 qpos by (simp add: divide_right_mono)
  finally have "2 powi (- 53) \<le> \<bar>x\<bar>" by (simp add: power_int_minus_divide)
  then have "- 53 \<le> binade x" by (rule binade_ge [OF x0])
  then have b: "- 1022 \<le> binade x" by simp
  have "\<bar>roundDouble x - x\<bar> \<le> \<bar>x\<bar> / 2 ^ 53" by (rule roundDouble_error [OF x0 b])
  also have "\<dots> = (of_int \<bar>t\<bar> / 2 ^ 53) / q" by (simp add: absx)
  also have "\<dots> < 1 / q"
  proof -
    have "of_int \<bar>t\<bar> / 2 ^ 53 < (1::rat)" using t53 by simp
    then show ?thesis using qpos by (rule divide_strict_right_mono)
  qed
  finally have err: "\<bar>roundDouble x - x\<bar> < 1 / q" .
  have "of_int c - 1 < roundDouble x" "roundDouble x \<le> of_int c"
    using err up down by linarith+
  then have "\<lceil>roundDouble x\<rceil> = c" by (intro ceiling_unique) simp_all
  then show ?thesis by (simp add: c_def x_def)
qed

lemma ceiling_roundDouble:
  fixes t p :: int
  assumes "p \<noteq> 0" "\<bar>p\<bar> < 2 ^ 53" "\<bar>t\<bar> < 2 ^ 53"
  shows "\<lceil>roundDouble (of_int t / of_int p)\<rceil> = \<lceil>(of_int t / of_int p :: rat)\<rceil>"
proof (cases "0 < p")
  case True
  with assms show ?thesis by (intro ceiling_roundDouble_pos) simp_all
next
  case False
  then have "0 < - p" using assms(1) by simp
  moreover have "- p < 2 ^ 53" "\<bar>- t\<bar> < 2 ^ 53" using assms by simp_all
  ultimately have "\<lceil>roundDouble (of_int (- t) / of_int (- p))\<rceil>
      = \<lceil>(of_int (- t) / of_int (- p) :: rat)\<rceil>"
    by (rule ceiling_roundDouble_pos)
  then show ?thesis by simp
qed

section \<open>Offset pagination: the properties\<close>

lemma pageCount_div:
  "pageSize s \<noteq> 0 \<Longrightarrow> \<bar>pageSize s\<bar> < 2 ^ 53 \<Longrightarrow>
   \<bar>case tot of None \<Rightarrow> 0 | Some t \<Rightarrow> t\<bar> < 2 ^ 53 \<Longrightarrow>
   pageCount tot s = - (- (case tot of None \<Rightarrow> 0 | Some t \<Rightarrow> t) div pageSize s)"
  by (simp add: pageCount_def ceiling_roundDouble ceiling_divide_eq_div)

text \<open>
  Beyond the safe integers the double quotient decides: for the total \<open>10 ^ 17\<close> and
  the page size 3 the hook counts 33333333333333332 pages, two less than the exact
  ceiling 33333333333333334.
\<close>

lemma pageCount_beyond_safe:
  "pageCount (Some 100000000000000000)
     \<lparr>sorters = [], filters = [], currentPage = 1, pageSize = 3,
      cursorState = \<lparr>current = JUndefined, direction = After, next = JUndefined,
                     prev = JUndefined, history = []\<rparr>\<rparr> = 33333333333333332"
  by (simp add: pageCount_def) code_simp

lemma ceil_div_bounds:
  fixes t p :: int
  assumes "0 < p"
  shows "(- (- t div p) - 1) * p < t \<and> t \<le> - (- t div p) * p"
proof -
  define q where "q = - t div p"
  define r where "r = - t mod p"
  have split: "- t = q * p + r"
    unfolding q_def r_def by simp
  have r: "0 \<le> r" "r < p"
    unfolding r_def using assms by simp_all
  have a: "(- q - 1) * p = - (q * p) - p"
    by (simp add: algebra_simps)
  have b: "- q * p = - (q * p)"
    by simp
  from split r a b show ?thesis
    unfolding q_def [symmetric] by linarith
qed

lemma pageCount_least:
  assumes "0 < pageSize s" and "pageSize s < 2 ^ 53"
    and "\<bar>case tot of None \<Rightarrow> 0 | Some t \<Rightarrow> t\<bar> < 2 ^ 53"
  shows "(pageCount tot s - 1) * pageSize s < (case tot of None \<Rightarrow> 0 | Some t \<Rightarrow> t)
       \<and> (case tot of None \<Rightarrow> 0 | Some t \<Rightarrow> t) \<le> pageCount tot s * pageSize s"
  using assms ceil_div_bounds [OF assms(1), of "case tot of None \<Rightarrow> 0 | Some t \<Rightarrow> t"]
  by (simp add: pageCount_div)

text \<open>
  Claim C4: outside cursor mode, for a page size other than 0 (the hook answers 1 for the
  page size 0 instead of dividing) and for a total and a page size that are safe integers
  (of magnitude below \<open>2 ^ 53\<close>, where the double quotient of line 571 has the ceiling of
  the exact quotient), \<open>pageCount\<close> is the ceiling of total / pageSize, an absent total
  counting as 0 (for a positive page size: the least number of pages that hold \<open>total\<close>
  entries), and \<open>hasNextPage\<close> is false exactly when \<open>currentPage \<ge> pageCount\<close>. With
  total 47 and page size 10 the page count is 5, and on page 5 \<open>hasNextPage\<close> is false.
\<close>

theorem C4_offset_pageCount:
  assumes "\<not> isCursorPaginationEnabled props" and "pageSize s \<noteq> 0"
    and "\<bar>pageSize s\<bar> < 2 ^ 53"
    and "\<bar>case tot of None \<Rightarrow> 0 | Some t \<Rightarrow> t\<bar> < 2 ^ 53"
  shows "pageCount tot s
           = \<lceil>real_of_int (case tot of None \<Rightarrow> 0 | Some t \<Rightarrow> t) / real_of_int (pageSize s)\<rceil>
       \<and> (0 < pageSize s \<longrightarrow>
            (pageCount tot s - 1) * pageSize s < (case tot of None \<Rightarrow> 0 | Some t \<Rightarrow> t)
            \<and> (case tot of None \<Rightarrow> 0 | Some t \<Rightarrow> t) \<le> pageCount tot s * pageSize s)
       \<and> pageCount None s = 0
       \<and> (hasNextPage props tot s = False \<longleftrightarrow> currentPage s \<ge> pageCount tot s)
       \<and> (pageSize s = 10 \<longrightarrow> pageCount (Some 47) s = 5)
       \<and> (pageSize s = 10 \<and> currentPage s = 5 \<longrightarrow> hasNextPage props (Some 47) s = False)"
proof -
  have exact: "pageCount tot s
      = \<lceil>real_of_int (case tot of None \<Rightarrow> 0 | Some t \<Rightarrow> t) / real_of_int (pageSize s)\<rceil>"
    using assms by (simp add: pageCount_div ceiling_divide_eq_div)
  have least: "0 < pageSize s \<Longrightarrow>
      (pageCount tot s - 1) * pageSize s < (case tot of None \<Rightarrow> 0 | Some t \<Rightarrow> t)
      \<and> (case tot of None \<Rightarrow> 0 | Some t \<Rightarrow> t) \<le> pageCount tot s * pageSize s"
    using assms pageCount_least [of s tot] by simp
  have absent: "pageCount None s = 0"
    using assms by (simp add: pageCount_div)
  have more: "hasNextPage props tot s = False \<longleftrightarrow> currentPage s \<ge> pageCount tot s"
    using assms by (auto simp add: hasNextPage_def)
  have example: "pageSize s = 10 \<Longrightarrow> pageCount (Some 47) s = 5"
    by (simp add: pageCount_div)
  have last_page: "pageSize s = 10 \<Longrightarrow> currentPage s = 5 \<Longrightarrow> hasNextPage props (Some 47) s = False"
    using assms example by (simp add: hasNextPage_def)
  from exact least absent more example last_page show ?thesis
    by blast
qed

text \<open>The example of the claim: total 47, page size 10, page 5, offset mode.\<close>

theorem C4_offset_pageCount_witness:
  "\<not> isCursorPaginationEnabled (postListProps\<lparr>paginationMode := Some ModeOffset\<rparr>)
   \<and> pageCount (Some 47)
        \<lparr>sorters = [], filters = [], currentPage = 5, pageSize = 10,
         cursorState = \<lparr>current = JUndefined, direction = After, next = JUndefined,
                        prev = JUndefined, history = []\<rparr>\<rparr> = 5
   \<and> hasNextPage (postListProps\<lparr>paginationMode := Some ModeOffset\<rparr>) (Some 47)
        \<lparr>sorters = [], filters = [], currentPage = 5, pageSize = 10,
         cursorState = \<lparr>current = JUndefined, direction = After, next = JUndefined,
                        prev = JUndefined, history = []\<rparr>\<rparr> = False"
  using C4_offset_pageCount [of "postListProps\<lparr>paginationMode := Some ModeOffset\<rparr>"
      "\<lparr>sorters = [], filters = [], currentPage = 5, pageSize = 10,
         cursorState = \<lparr>current = JUndefined, direction = After, next = JUndefined,
                        prev = JUndefined, history = []\<rparr>\<rparr>" "Some 47"]
  by (simp add: isCursorPaginationEnabled_def postListProps_def)

section \<open>The location: the properties\<close>


text \<open>
  What \<open>createLinkForSyncWithLocation\<close> hands to \<open>go\<close>, key by key: the location wins
  for every key it holds but \<open>sorters\<close>, \<open>filters\<close>, \<open>pageSize\<close> and \<open>current\<close>.
\<close>

lemma linkGoConfig_query_at:
  "query (linkGoConfig props ps p) k =
     (if k \<in> {''sorters'', ''filters'', ''pageSize'', ''current''} \<or> ps k = None
      then (if k = ''sorters'' then Some (QSorters (link_sorters p))
            else if k = ''filters'' then Some (QFilters (link_filters p))
            else if k = ''pageSize'' \<and> isPaginationEnabled props
              then Some (QVal (jnum (link_pageSize p)))
            else if k = ''currentPage'' \<and> isPaginationEnabled props
              then Some (QVal (jnum (link_currentPage p)))
            else None)
      else ps k)"
  by (auto simp add: linkGoConfig_def getCurrentQueryParams_def map_add_def restrict_map_def
      split: option.splits)

text \<open>
  Claim C5 says that the query of \<open>createLinkForSyncWithLocation\<close> holds exactly the
  supplied \<open>currentPage\<close> and \<open>pageSize\<close>, and that the location's parameters never
  override the supplied values. \<open>getCurrentQueryParams\<close> strips the key \<open>current\<close> and
  not \<open>currentPage\<close>, the key the hook reads at line 269: on a location that holds
  \<open>currentPage = 3\<close>, a link asked for page 5 carries page 3. The supplied page size and
  the unrelated parameter \<open>tab\<close> come out as the claim says.
\<close>

theorem C5_location_currentPage_overrides:
  "query (linkGoConfig (postListProps\<lparr>paginationMode := Some ModeOffset\<rparr>)
            [''currentPage'' \<mapsto> QVal (JNum 3), ''tab'' \<mapsto> QVal (JStr ''open'')]
            \<lparr>link_currentPage = Some 5, link_pageSize = Some 10,
             link_sorters = [], link_filters = []\<rparr>) ''currentPage''
     = Some (QVal (JNum 3))
   \<and> query (linkGoConfig (postListProps\<lparr>paginationMode := Some ModeOffset\<rparr>)
            [''currentPage'' \<mapsto> QVal (JNum 3), ''tab'' \<mapsto> QVal (JStr ''open'')]
            \<lparr>link_currentPage = Some 5, link_pageSize = Some 10,
             link_sorters = [], link_filters = []\<rparr>) ''pageSize''
     = Some (QVal (JNum 10))
   \<and> query (linkGoConfig (postListProps\<lparr>paginationMode := Some ModeOffset\<rparr>)
            [''currentPage'' \<mapsto> QVal (JNum 3), ''tab'' \<mapsto> QVal (JStr ''open'')]
            \<lparr>link_currentPage = Some 5, link_pageSize = Some 10,
             link_sorters = [], link_filters = []\<rparr>) ''tab''
     = Some (QVal (JStr ''open''))"
  by (simp add: linkGoConfig_def getCurrentQueryParams_def isPaginationEnabled_def
      postListProps_def jnum_def map_add_def restrict_map_def)




text \<open>
  Claim C10, as the specification states it, resets page, page size, sorters and filters
  to the defaults computed at mount. The hook computes the defaults again on every
  render, from the props and the location of that render. Mounted on a location that
  holds \<open>currentPage = 3\<close>, the hook starts on page 3, the default of the mount; when the
  search string becomes empty, the reset goes to page 1.
\<close>

theorem C10_reset_not_mount_defaults_counterexample:
  "currentPage (initialState bareDefinitions (postListProps\<lparr>paginationMode := Some ModeOffset\<rparr>)
      [''currentPage'' \<mapsto> QVal (JNum 3)]) = 3
   \<and> currentPage (resetOnEmptySearch bareDefinitions (postListProps\<lparr>paginationMode := Some ModeOffset\<rparr>)
      [''search'' \<mapsto> QVal (JStr '''')]
      (initialState bareDefinitions (postListProps\<lparr>paginationMode := Some ModeOffset\<rparr>)
        [''currentPage'' \<mapsto> QVal (JNum 3)])) = 1"
  by (simp add: initialState_def resetOnEmptySearch_def tableDefaults_def Let_def
      paramNum_def paramSearch_def paramSorters_def paramFilters_def
      bareDefinitions_def parsesNothing_def postListProps_def)

text \<open>
  Claim C10, amended: when the search string of the location is exactly empty, the reset
  sets \<open>currentPage\<close>, \<open>pageSize\<close>, \<open>sorters\<close> and \<open>filters\<close> to the defaults computed
  on that render from the props and the now empty location, which are the values a
  mount on that location starts with; the cursor state (\<open>current\<close>, \<open>direction\<close>,
  \<open>next\<close>, \<open>prev\<close> and the history) is left unchanged. This holds whatever the
  functions of \<open>@definitions/table\<close> are.
\<close>

theorem C10_reset_frame:
  assumes "ps ''search'' = Some (QVal (JStr ''''))"
  shows "currentPage (resetOnEmptySearch defs props ps s) = defaultCurrentPage (tableDefaults defs props ps)
       \<and> pageSize (resetOnEmptySearch defs props ps s) = defaultPageSize (tableDefaults defs props ps)
       \<and> currentPage (resetOnEmptySearch defs props ps s) = currentPage (initialState defs props ps)
       \<and> pageSize (resetOnEmptySearch defs props ps s) = pageSize (initialState defs props ps)
       \<and> sorters (resetOnEmptySearch defs props ps s) = sorters (initialState defs props ps)
       \<and> filters (resetOnEmptySearch defs props ps s) = filters (initialState defs props ps)
       \<and> cursorState (resetOnEmptySearch defs props ps s) = cursorState s"
  using assms by (simp add: resetOnEmptySearch_def initialState_def Let_def)

text \<open>
  The reset of the example on the empty search string, from page 4 with page size 20 in
  the middle of a cursor traversal: page 1, page size 5 (the caller's), the cursor state
  as it was.
\<close>

theorem C10_reset_frame_witness:
  "[''search'' \<mapsto> QVal (JStr '''')] ''search'' = Some (QVal (JStr ''''))
   \<and> currentPage (resetOnEmptySearch bareDefinitions postListProps [''search'' \<mapsto> QVal (JStr '''')]
        \<lparr>sorters = [], filters = [], currentPage = 4, pageSize = 20,
         cursorState = \<lparr>current = JStr ''c2'', direction = After, next = JStr ''c3'',
                        prev = JUndefined, history = [JUndefined, JStr ''c1'']\<rparr>\<rparr>) = 1
   \<and> pageSize (resetOnEmptySearch bareDefinitions postListProps [''search'' \<mapsto> QVal (JStr '''')]
        \<lparr>sorters = [], filters = [], currentPage = 4, pageSize = 20,
         cursorState = \<lparr>current = JStr ''c2'', direction = After, next = JStr ''c3'',
                        prev = JUndefined, history = [JUndefined, JStr ''c1'']\<rparr>\<rparr>) = 5
   \<and> cursorState (resetOnEmptySearch bareDefinitions postListProps [''search'' \<mapsto> QVal (JStr '''')]
        \<lparr>sorters = [], filters = [], currentPage = 4, pageSize = 20,
         cursorState = \<lparr>current = JStr ''c2'', direction = After, next = JStr ''c3'',
                        prev = JUndefined, history = [JUndefined, JStr ''c1'']\<rparr>\<rparr>)
     = \<lparr>current = JStr ''c2'', direction = After, next = JStr ''c3'',
        prev = JUndefined, history = [JUndefined, JStr ''c1'']\<rparr>"
  using C10_reset_frame [of "[''search'' \<mapsto> QVal (JStr '''')]" bareDefinitions postListProps
        "\<lparr>sorters = [], filters = [], currentPage = 4, pageSize = 20,
         cursorState = \<lparr>current = JStr ''c2'', direction = After, next = JStr ''c3'',
                        prev = JUndefined, history = [JUndefined, JStr ''c1'']\<rparr>\<rparr>"]
  by (simp add: tableDefaults_def Let_def paramNum_def paramSearch_def
      bareDefinitions_def parsesNothing_def postListProps_def)

section \<open>Filters and sorters: the properties\<close>

lemma keepLast_subset: "set (keepLast key xs) \<subseteq> set xs"
  by (induction xs) auto

lemma keepLast_distinct_keys: "distinct (map key (keepLast key xs))"
proof (induction xs)
  case Nil
  show ?case by simp
next
  case (Cons x xs)
  have "key x \<notin> set (map key xs) \<Longrightarrow> key x \<notin> set (map key (keepLast key xs))"
    using keepLast_subset [of key xs] by auto
  with Cons show ?case by simp
qed

lemma keepLast_distinct_id: "distinct (map key xs) \<Longrightarrow> keepLast key xs = xs"
  by (induction xs) auto

lemma keepLast_idem: "keepLast key (keepLast key xs) = keepLast key xs"
  by (rule keepLast_distinct_id) (rule keepLast_distinct_keys)

lemma filter_none: "(\<And>x. x \<in> set xs \<Longrightarrow> \<not> Q x) \<Longrightarrow> filter Q xs = []"
  by (induction xs) auto

lemma filter_all: "(\<And>x. x \<in> set xs \<Longrightarrow> Q x) \<Longrightarrow> filter Q xs = xs"
  by (induction xs) auto

lemma spec_unionFilters_permanent:
  "set permanent \<subseteq> set (spec_unionFilters permanent incoming previous)"
  by (simp add: spec_unionFilters_def)

lemma spec_unionFilters_prefix:
  "take (length permanent) (spec_unionFilters permanent incoming previous) = permanent"
  by (simp add: spec_unionFilters_def)

lemma spec_unionSorters_permanent: "set permanent \<subseteq> set (spec_unionSorters permanent incoming)"
  by (simp add: spec_unionSorters_def)

lemma spec_unionFilters_replace_subset:
  "set (spec_unionFilters permanent incoming None) \<subseteq> set permanent \<union> set incoming"
  using keepLast_subset [of filterKey "filter (\<lambda>f. filterKey f \<notin> set (map filterKey permanent)) incoming"]
  by (auto simp add: spec_unionFilters_def)

text \<open>
  The scenario of section 8 of the specification on the modelled union: with the
  permanent filter \<open>status eq open\<close> in the state, merging \<open>author eq alice\<close> gives
  exactly the two entries in that order.
\<close>

lemma spec_unionFilters_scenario:
  "filters (setFiltersFn (withSpecUnions defs) openOnlyProps
      (Filters [\<lparr>field = ''author'', operator = ''eq'', fvalue = JStr ''alice'', fkey = None\<rparr>]) None
      \<lparr>sorters = [],
       filters = [\<lparr>field = ''status'', operator = ''eq'', fvalue = JStr ''open'', fkey = None\<rparr>],
       currentPage = 1, pageSize = 5,
       cursorState = \<lparr>current = JUndefined, direction = After, next = JUndefined,
                      prev = JUndefined, history = []\<rparr>\<rparr>)
     = [\<lparr>field = ''status'', operator = ''eq'', fvalue = JStr ''open'', fkey = None\<rparr>,
        \<lparr>field = ''author'', operator = ''eq'', fvalue = JStr ''alice'', fkey = None\<rparr>]"
  by (simp add: openOnlyProps_def postListProps_def withSpecUnions_def
      setFiltersAsMerge_def spec_unionFilters_def filterKey_def)

text \<open>
  Merging the same incoming filters into the result of the merge changes nothing: the
  permanent and the incoming entries are those of the first merge, and the previous
  entries that survived it survive again.
\<close>

lemma spec_unionFilters_merge_idem:
  "spec_unionFilters permanent incoming (Some (spec_unionFilters permanent incoming (Some old)))
     = spec_unionFilters permanent incoming (Some old)"
proof -
  let ?Q = "\<lambda>f. filterKey f \<notin> set (map filterKey permanent) \<and> filterKey f \<notin> set (map filterKey incoming)"
  let ?A = "keepLast filterKey (filter (\<lambda>f. filterKey f \<notin> set (map filterKey permanent)) incoming)"
  let ?B = "keepLast filterKey (filter ?Q old)"
  have p: "filter ?Q permanent = []"
    by (rule filter_none) simp
  have a: "filter ?Q ?A = []"
  proof (rule filter_none)
    fix x assume "x \<in> set ?A"
    then have "x \<in> set incoming"
      using keepLast_subset [of filterKey "filter (\<lambda>f. filterKey f \<notin> set (map filterKey permanent)) incoming"]
      by auto
    then show "\<not> ?Q x" by simp
  qed
  have b: "filter ?Q ?B = ?B"
  proof (rule filter_all)
    fix x assume "x \<in> set ?B"
    then have "x \<in> set (filter ?Q old)"
      using keepLast_subset [of filterKey "filter ?Q old"] by blast
    then show "?Q x" by simp
  qed
  have "filter ?Q (permanent @ ?A @ ?B) = ?B"
    by (simp only: filter_append p a b append_Nil)
  then have "keepLast filterKey (filter ?Q (permanent @ ?A @ ?B)) = ?B"
    by (simp only: keepLast_idem)
  then show ?thesis
    by (simp add: spec_unionFilters_def)
qed

text \<open>
  Claim C8: for every previous filter state, \<open>setFilters(F, "replace")\<close> leaves exactly
  \<open>unionFilters(permanent, F)\<close> in \<open>filters\<close>, whatever \<open>unionFilters\<close> is, so the result
  is the same from any two previous states: nothing of the previous state remains. With
  the union of the specification every entry of the result is an entry of the permanent
  set or of \<open>F\<close>: an entry of the previous state outside the permanent set is in the
  result only when \<open>F\<close> supplies it.
\<close>

theorem C8_replace_exact:
  "filters (setFiltersFn defs props (Filters F) (Some Replace) s)
     = unionFilters defs (preferredPermanentFilters props) F None
   \<and> filters (setFiltersFn defs props (Filters F) (Some Replace) s)
     = filters (setFiltersFn defs props (Filters F) (Some Replace) s')
   \<and> set (filters (setFiltersFn (withSpecUnions defs) props (Filters F) (Some Replace) s))
       \<subseteq> set (preferredPermanentFilters props) \<union> set F
   \<and> (set (filters s) - set (preferredPermanentFilters props))
       \<inter> set (filters (setFiltersFn (withSpecUnions defs) props (Filters F) (Some Replace) s))
       \<subseteq> set F"
  using spec_unionFilters_replace_subset [of "preferredPermanentFilters props" F]
  by (auto simp add: setFiltersAsReplace_def withSpecUnions_def)

text \<open>
  Claim C9: with the union of the specification, \<open>setFilters(F, "merge")\<close> is idempotent:
  from every state and for every incoming list \<open>F\<close>, the second call with the same \<open>F\<close>
  leaves the state of the first.
\<close>

theorem C9_merge_idempotent:
  "setFiltersFn (withSpecUnions defs) props (Filters F) (Some Merge)
     (setFiltersFn (withSpecUnions defs) props (Filters F) (Some Merge) s)
   = setFiltersFn (withSpecUnions defs) props (Filters F) (Some Merge) s"
  by (simp add: setFiltersAsMerge_def withSpecUnions_def spec_unionFilters_merge_idem)

lemma applyCall_permanent:
  assumes "set (preferredPermanentFilters props) \<subseteq> set (filters s)"
    and "set (preferredPermanentSorters props) \<subseteq> set (sorters s)"
  shows "set (preferredPermanentFilters props) \<subseteq> set (filters (applyCall (withSpecUnions defs) props c s))
       \<and> set (preferredPermanentSorters props) \<subseteq> set (sorters (applyCall (withSpecUnions defs) props c s))"
proof (cases c)
  case (SetFilters a b)
  then show ?thesis
    using assms(2) spec_unionFilters_permanent
    by (cases a)
      (simp_all add: setFiltersWithSetter_def setFiltersAsReplace_def setFiltersAsMerge_def
        withSpecUnions_def)
next
  case (SetSorters xs)
  then show ?thesis
    using assms(1) spec_unionSorters_permanent
    by (simp add: setSortWithUnion_def withSpecUnions_def)
qed

lemma applyCalls_permanent:
  "set (preferredPermanentFilters props) \<subseteq> set (filters s) \<Longrightarrow>
   set (preferredPermanentSorters props) \<subseteq> set (sorters s) \<Longrightarrow>
   set (preferredPermanentFilters props) \<subseteq> set (filters (applyCalls (withSpecUnions defs) props cs s))
   \<and> set (preferredPermanentSorters props) \<subseteq> set (sorters (applyCalls (withSpecUnions defs) props cs s))"
proof (induction cs arbitrary: s)
  case Nil
  then show ?case by simp
next
  case (Cons c cs)
  from applyCall_permanent [OF Cons.prems, of defs c]
  show ?case by (simp add: Cons.IH)
qed

text \<open>
  Claim C3: with the union of the specification, from a state that holds every permanent
  filter and every permanent sorter, every sequence of
  \<open>setFilters\<close> calls (a list with \<open>merge\<close>, with \<open>replace\<close> or with the default
  behaviour, or an updater function) and \<open>setSorters\<close> calls ends in a state that holds
  every permanent filter and every permanent sorter, unmodified. After a single
  \<open>setFilters\<close> call from any state the filters start with the permanent filters in
  their order, and after a single \<open>setSorters\<close> call the sorters start with the
  permanent sorters.
\<close>

theorem C3_permanent_entries_kept:
  "(set (preferredPermanentFilters props) \<subseteq> set (filters s)
      \<and> set (preferredPermanentSorters props) \<subseteq> set (sorters s) \<longrightarrow>
      set (preferredPermanentFilters props)
        \<subseteq> set (filters (applyCalls (withSpecUnions defs) props cs s))
      \<and> set (preferredPermanentSorters props)
        \<subseteq> set (sorters (applyCalls (withSpecUnions defs) props cs s)))
   \<and> take (length (preferredPermanentFilters props))
        (filters (applyCall (withSpecUnions defs) props (SetFilters a b) s))
      = preferredPermanentFilters props
   \<and> take (length (preferredPermanentSorters props))
        (sorters (applyCall (withSpecUnions defs) props (SetSorters xs) s))
      = preferredPermanentSorters props"
proof -
  have one: "take (length (preferredPermanentFilters props))
        (filters (applyCall (withSpecUnions defs) props (SetFilters a b) s))
      = preferredPermanentFilters props"
    by (cases a)
      (simp_all add: setFiltersWithSetter_def setFiltersAsReplace_def setFiltersAsMerge_def
        withSpecUnions_def spec_unionFilters_prefix)
  have two: "take (length (preferredPermanentSorters props))
        (sorters (applyCall (withSpecUnions defs) props (SetSorters xs) s))
      = preferredPermanentSorters props"
    by (simp add: setSortWithUnion_def withSpecUnions_def spec_unionSorters_def)
  from applyCalls_permanent [of props s defs cs] one two show ?thesis
    by blast
qed

text \<open>
  The scenario of section 8 with the permanent filter \<open>status eq open\<close> and the permanent
  sorter \<open>id desc\<close>: the user merges \<open>author eq alice\<close>, then replaces the filters by
  \<open>status eq closed\<close>, then sorts by \<open>id asc\<close> and \<open>title asc\<close>. The permanent entries
  stand, and the entries that share their key are dropped.
\<close>

theorem C3_permanent_entries_kept_witness:
  "set (preferredPermanentFilters openOnlyProps)
     \<subseteq> set (filters
          \<lparr>sorters = [\<lparr>sfield = ''id'', sorder = Desc\<rparr>],
           filters = [\<lparr>field = ''status'', operator = ''eq'', fvalue = JStr ''open'', fkey = None\<rparr>],
           currentPage = 1, pageSize = 5,
           cursorState = \<lparr>current = JUndefined, direction = After, next = JUndefined,
                          prev = JUndefined, history = []\<rparr>\<rparr>)
   \<and> filters (applyCalls (withSpecUnions bareDefinitions) openOnlyProps
        [SetFilters (Filters [\<lparr>field = ''author'', operator = ''eq'', fvalue = JStr ''alice'', fkey = None\<rparr>]) None,
         SetFilters (Filters [\<lparr>field = ''status'', operator = ''eq'', fvalue = JStr ''closed'', fkey = None\<rparr>]) (Some Replace),
         SetSorters [\<lparr>sfield = ''id'', sorder = Asc\<rparr>, \<lparr>sfield = ''title'', sorder = Asc\<rparr>]]
          \<lparr>sorters = [\<lparr>sfield = ''id'', sorder = Desc\<rparr>],
           filters = [\<lparr>field = ''status'', operator = ''eq'', fvalue = JStr ''open'', fkey = None\<rparr>],
           currentPage = 1, pageSize = 5,
           cursorState = \<lparr>current = JUndefined, direction = After, next = JUndefined,
                          prev = JUndefined, history = []\<rparr>\<rparr>)
     = [\<lparr>field = ''status'', operator = ''eq'', fvalue = JStr ''open'', fkey = None\<rparr>]
   \<and> sorters (applyCalls (withSpecUnions bareDefinitions) openOnlyProps
        [SetFilters (Filters [\<lparr>field = ''author'', operator = ''eq'', fvalue = JStr ''alice'', fkey = None\<rparr>]) None,
         SetFilters (Filters [\<lparr>field = ''status'', operator = ''eq'', fvalue = JStr ''closed'', fkey = None\<rparr>]) (Some Replace),
         SetSorters [\<lparr>sfield = ''id'', sorder = Asc\<rparr>, \<lparr>sfield = ''title'', sorder = Asc\<rparr>]]
          \<lparr>sorters = [\<lparr>sfield = ''id'', sorder = Desc\<rparr>],
           filters = [\<lparr>field = ''status'', operator = ''eq'', fvalue = JStr ''open'', fkey = None\<rparr>],
           currentPage = 1, pageSize = 5,
           cursorState = \<lparr>current = JUndefined, direction = After, next = JUndefined,
                          prev = JUndefined, history = []\<rparr>\<rparr>)
     = [\<lparr>sfield = ''id'', sorder = Desc\<rparr>, \<lparr>sfield = ''title'', sorder = Asc\<rparr>]"
  using C3_permanent_entries_kept [of openOnlyProps
          "\<lparr>sorters = [\<lparr>sfield = ''id'', sorder = Desc\<rparr>],
           filters = [\<lparr>field = ''status'', operator = ''eq'', fvalue = JStr ''open'', fkey = None\<rparr>],
           currentPage = 1, pageSize = 5,
           cursorState = \<lparr>current = JUndefined, direction = After, next = JUndefined,
                          prev = JUndefined, history = []\<rparr>\<rparr>"
          bareDefinitions
          "[SetFilters (Filters [\<lparr>field = ''author'', operator = ''eq'', fvalue = JStr ''alice'', fkey = None\<rparr>]) None,
         SetFilters (Filters [\<lparr>field = ''status'', operator = ''eq'', fvalue = JStr ''closed'', fkey = None\<rparr>]) (Some Replace),
         SetSorters [\<lparr>sfield = ''id'', sorder = Asc\<rparr>, \<lparr>sfield = ''title'', sorder = Asc\<rparr>]]"]
  by (simp add: openOnlyProps_def postListProps_def withSpecUnions_def bareDefinitions_def
      setFiltersAsMerge_def setFiltersAsReplace_def setSortWithUnion_def
      spec_unionFilters_def spec_unionSorters_def filterKey_def)

end
